theory Spec2Isabelle
  imports Main
begin

section \<open>JavaScript strings and regular expressions\<close>

text \<open>
  Strings are lists of code units, taken to be below 256 (a \<^typ>\<open>char\<close>). The
  character classes are the ECMAScript ones on that range; case folding covers the ASCII
  letters.
\<close>

definition is_word :: "char \<Rightarrow> bool" where
  \<comment> \<open>the class \<open>\w\<close>\<close>
  "is_word c = (c \<in> set ''ABCDEFGHIJKLMNOPQRSTUVWXYZabcdefghijklmnopqrstuvwxyz0123456789_'')"

definition is_space :: "char \<Rightarrow> bool" where
  \<comment> \<open>the class \<open>\s\<close>: tab, line feed, vertical tab, form feed, carriage return, space, no-break space\<close>
  "is_space c = (c \<in> {CHR 0x09, CHR 0x0A, CHR 0x0B, CHR 0x0C, CHR 0x0D, CHR '' '', CHR 0xA0})"

definition line_terminator :: "char \<Rightarrow> bool" where
  "line_terminator c = (c = CHR 0x0A \<or> c = CHR 0x0D)"

definition canonicalize :: "char \<Rightarrow> char" where
  \<comment> \<open>the case folding of the \<open>i\<close> flag: upper-casing of the ASCII letters\<close>
  "canonicalize c =
     (case map_of (zip ''abcdefghijklmnopqrstuvwxyz'' ''ABCDEFGHIJKLMNOPQRSTUVWXYZ'') c of
        Some u \<Rightarrow> u
      | None \<Rightarrow> c)"

datatype atom = Lit char | AnyChar | WordChar | SpaceChar

datatype quant = One | Opt | Plus | Star

datatype item = Item atom quant | Eos

text \<open>
  A regular expression of the fragment the program uses: alternatives separated by
  \<open>|\<close>, each a sequence of single-character atoms with a greedy quantifier, or the
  end-of-input assertion \<open>$\<close>; and the flags \<open>i\<close> and \<open>g\<close>.
\<close>

record regexp =
  alternatives :: "item list list"
  ignoreCase :: bool
  global :: bool

fun atom_ok :: "bool \<Rightarrow> atom \<Rightarrow> char \<Rightarrow> bool" where
  "atom_ok ic (Lit a) c = (if ic then canonicalize a = canonicalize c else a = c)"
| "atom_ok ic AnyChar c = (\<not> line_terminator c)"
| "atom_ok ic WordChar c = is_word c"
| "atom_ok ic SpaceChar c = is_space c"

text \<open>
  \<open>match_here ic items s\<close> is the length of the match of \<open>items\<close> at the start of
  \<open>s\<close> that a backtracking matcher finds first (quantifiers take as much as they can and
  give back one character at a time), or \<open>None\<close>.
\<close>

fun match_here :: "bool \<Rightarrow> item list \<Rightarrow> string \<Rightarrow> nat option" where
  "match_here ic [] s = Some 0"
| "match_here ic (Eos # is) s = (if s = [] then match_here ic is s else None)"
| "match_here ic (Item a One # is) [] = None"
| "match_here ic (Item a One # is) (c # cs) =
     (if atom_ok ic a c then map_option Suc (match_here ic is cs) else None)"
| "match_here ic (Item a Opt # is) [] = match_here ic is []"
| "match_here ic (Item a Opt # is) (c # cs) =
     (if atom_ok ic a c
      then (case match_here ic is cs of
              Some n \<Rightarrow> Some (Suc n)
            | None \<Rightarrow> match_here ic is (c # cs))
      else match_here ic is (c # cs))"
| "match_here ic (Item a Plus # is) [] = None"
| "match_here ic (Item a Plus # is) (c # cs) =
     (if atom_ok ic a c then map_option Suc (match_here ic (Item a Star # is) cs) else None)"
| "match_here ic (Item a Star # is) [] = match_here ic is []"
| "match_here ic (Item a Star # is) (c # cs) =
     (if atom_ok ic a c
      then (case match_here ic (Item a Star # is) cs of
              Some n \<Rightarrow> Some (Suc n)
            | None \<Rightarrow> match_here ic is (c # cs))
      else match_here ic is (c # cs))"

fun match_alts :: "bool \<Rightarrow> item list list \<Rightarrow> string \<Rightarrow> nat option" where
  "match_alts ic [] s = None"
| "match_alts ic (a # as) s =
     (case match_here ic a s of Some n \<Rightarrow> Some n | None \<Rightarrow> match_alts ic as s)"

text \<open>The leftmost match: its start index and its length.\<close>

fun search :: "bool \<Rightarrow> item list list \<Rightarrow> string \<Rightarrow> (nat \<times> nat) option" where
  "search ic as [] = map_option (\<lambda>n. (0, n)) (match_alts ic as [])"
| "search ic as (c # cs) =
     (case match_alts ic as (c # cs) of
        Some n \<Rightarrow> Some (0, n)
      | None \<Rightarrow> map_option (\<lambda>(i, n). (Suc i, n)) (search ic as cs))"

definition re_test :: "regexp \<Rightarrow> string \<Rightarrow> bool" where
  \<comment> \<open>\<open>re.test(s)\<close> for a regular expression without the \<open>g\<close> flag\<close>
  "re_test re s = (search (ignoreCase re) (alternatives re) s \<noteq> None)"

definition replace_first :: "regexp \<Rightarrow> string \<Rightarrow> string \<Rightarrow> string" where
  "replace_first re repl s =
     (case search (ignoreCase re) (alternatives re) s of
        None \<Rightarrow> s
      | Some (i, n) \<Rightarrow> take i s @ repl @ drop (i + n) s)"

text \<open>
  With the \<open>g\<close> flag every match is replaced, scanning from the left; after an empty match
  the scan moves on by one character.
\<close>

fun replace_all :: "bool \<Rightarrow> item list list \<Rightarrow> string \<Rightarrow> string \<Rightarrow> string" where
  "replace_all ic as repl [] = (case match_alts ic as [] of Some n \<Rightarrow> repl | None \<Rightarrow> [])"
| "replace_all ic as repl (c # cs) =
     (case match_alts ic as (c # cs) of
        None \<Rightarrow> c # replace_all ic as repl cs
      | Some 0 \<Rightarrow> repl @ c # replace_all ic as repl cs
      | Some (Suc n) \<Rightarrow> repl @ replace_all ic as repl (drop n cs))"

definition js_replace :: "string \<Rightarrow> regexp \<Rightarrow> string \<Rightarrow> string" where
  \<comment> \<open>\<open>s.replace(re, repl)\<close>, for a replacement text without \<open>$\<close>\<close>
  "js_replace s re repl =
     (if global re then replace_all (ignoreCase re) (alternatives re) repl s
      else replace_first re repl s)"

definition js_trim :: "string \<Rightarrow> string" where
  "js_trim s = rev (dropWhile is_space (rev (dropWhile is_space s)))"

text \<open>\<open>s.split(sep)\<close> for a one-character separator; the empty string gives \<open>['']\<close>.\<close>

primrec js_split :: "char \<Rightarrow> string \<Rightarrow> string list" where
  "js_split sep [] = [[]]"
| "js_split sep (c # cs) =
     (if c = sep then [] # js_split sep cs
      else (case js_split sep cs of p # ps \<Rightarrow> (c # p) # ps | [] \<Rightarrow> [[c]]))"

fun js_join :: "string \<Rightarrow> string list \<Rightarrow> string" where
  "js_join sep [] = []"
| "js_join sep [x] = x"
| "js_join sep (x # y # ys) = x @ sep @ js_join sep (y # ys)"

primrec js_includes :: "string \<Rightarrow> string \<Rightarrow> bool" where
  \<comment> \<open>\<open>s.includes(sub)\<close>, also \<open>s.indexOf(sub) !== -1\<close>\<close>
  "js_includes [] sub = (sub = [])"
| "js_includes (c # cs) sub = (take (length sub) (c # cs) = sub \<or> js_includes cs sub)"

definition digit :: "nat \<Rightarrow> char" where
  "digit n = ''0123456789'' ! (n mod 10)"

fun decimal :: "nat \<Rightarrow> string" where
  \<comment> \<open>the text of a non-negative integer inside a template literal\<close>
  "decimal n = (if n < 10 then [digit n] else decimal (n div 10) @ [digit n])"

declare decimal.simps [simp del]

definition truthy :: "string option \<Rightarrow> bool" where
  \<comment> \<open>a string-or-undefined value in a boolean position\<close>
  "truthy v = (case v of None \<Rightarrow> False | Some s \<Rightarrow> s \<noteq> [])"

definition nl :: string where
  "nl = [CHR 0x0A]"

definition literally :: "string \<Rightarrow> item list" where
  "literally s = map (\<lambda>c. Item (Lit c) One) s"

section \<open>The host: processes, files and the environment\<close>

datatype error =
    Command_failed string
  | ENOENT string
  | Unmodelled_pattern string
  | TypeError
  | Gunzip_failed
  | ERR_HTTP_HEADERS_SENT

text \<open>
  What the program reads from outside itself. \<open>exec\<close> is the standard output of a shell
  command, \<open>None\<close> when the command exits with a failure (\<open>execSync\<close> then throws);
  \<open>written\<close> is the content an \<open>openssl\<close> run leaves in an output file; \<open>env\<close>,
  \<open>argv\<close> and \<open>platform\<close> are those of \<open>process\<close>.
\<close>

record host =
  exec :: "string \<Rightarrow> string option"
  written :: "string \<Rightarrow> string"
  env :: "string \<Rightarrow> string option"
  argv :: "string list"
  platform :: string
  homedir :: string
  dirname :: string
  gunzipSync :: "string \<Rightarrow> string option"

text \<open>
  The state the program changes: the files (by path), the commands handed to
  \<open>execSync\<close> (oldest first) and the ports listened on. Directories are not tracked:
  the storage root is taken to exist after \<open>mkdirSync\<close>, and writes to succeed.
\<close>

record world =
  files :: "string \<rightharpoonup> string"
  execd :: "string list"
  listening :: "nat list"

definition existsSync :: "string \<Rightarrow> world \<Rightarrow> bool" where
  "existsSync p w = (p \<in> dom (files w))"

definition readFileSync :: "string \<Rightarrow> world \<Rightarrow> error + string" where
  "readFileSync p w = (case files w p of None \<Rightarrow> Inl (ENOENT p) | Some d \<Rightarrow> Inr d)"

definition writeFileSync :: "string \<Rightarrow> string \<Rightarrow> world \<Rightarrow> world" where
  "writeFileSync p d w = w\<lparr>files := (files w)(p \<mapsto> d)\<rparr>"

definition execSync :: "host \<Rightarrow> string \<Rightarrow> world \<Rightarrow> (error + string) \<times> world" where
  "execSync h cmd w =
     (case exec h cmd of None \<Rightarrow> Inl (Command_failed cmd) | Some out \<Rightarrow> Inr out,
      w\<lparr>execd := execd w @ [cmd]\<rparr>)"

definition outputs :: "host \<Rightarrow> string list \<Rightarrow> world \<Rightarrow> world" where
  \<comment> \<open>the output files of a finished \<open>openssl\<close> run\<close>
  "outputs h ps w = foldl (\<lambda>w p. writeFileSync p (written h p) w) w ps"

definition path_join :: "string \<Rightarrow> string \<Rightarrow> string" where
  \<comment> \<open>\<open>path.join(dir, name)\<close> for a normalised \<open>dir\<close> without a trailing separator\<close>
  "path_join dir name = dir @ ''/'' @ name"

section \<open>ssl.js: the certificate bootstrap\<close>

definition opensslCA :: string where
  "opensslCA = ''openssl req -x509 -nodes -days 9999 -sha256 -newkey rsa:2048''"

definition opensslReq :: string where
  "opensslReq = ''openssl req -nodes -newkey rsa:2048''"

definition opensslSign :: string where
  "opensslSign = ''openssl x509 -req -days 9999 -sha256''"

definition caSubj :: string where
  "caSubj = [CHR 0x22] @ ''/C=US/ST=California/L=Berkeley/O=Symmetric/OU=Engineering/CN=Symmetric Proxy CA'' @ [CHR 0x22]"

definition subj :: string where
  "subj = [CHR 0x22] @ ''/C=US/ST=California/L=Berkeley/O=Symmetric/OU=Engineering/CN=Symmetric Proxy'' @ [CHR 0x22]"

record ssl_options =
  additionalDomains :: "string list option"
  additionalIPs :: "string list option"
  home :: "string option"

record ssl_files =
  key :: string
  cert :: string
  caKey :: string
  caCert :: string

definition two_spaces :: regexp where
  \<comment> \<open>\<open>/ {2}/g\<close>\<close>
  "two_spaces = \<lparr>alternatives = [literally ''  ''], ignoreCase = False, global = True\<rparr>"

definition storage_root :: "host \<Rightarrow> ssl_options option \<Rightarrow> string" where
  "storage_root h options =
     (let configured = (case options of None \<Rightarrow> None | Some opt \<Rightarrow> home opt) in
      if truthy configured then the configured
      else if truthy (env h ''SYMMETRIC_HOME'') then the (env h ''SYMMETRIC_HOME'')
      else path_join (homedir h) ''.symmetric'')"

definition addDomain :: "string list \<Rightarrow> string \<Rightarrow> string list" where
  "addDomain altDomainNames domain =
     (if domain \<notin> set altDomainNames then altDomainNames @ [domain] else altDomainNames)"

definition addIP :: "string list \<Rightarrow> string \<Rightarrow> string list" where
  "addIP altIPs ip = (if ip \<notin> set altIPs then altIPs @ [ip] else altIPs)"

definition initial_domains :: "ssl_options option \<Rightarrow> string list" where
  "initial_domains options =
     (case options of
        None \<Rightarrow> [''localhost'']
      | Some opt \<Rightarrow>
          (case additionalDomains opt of
             None \<Rightarrow> [''localhost'']
           | Some ds \<Rightarrow> foldl addDomain [''localhost''] ds))"

definition initial_ips :: "ssl_options option \<Rightarrow> string list" where
  "initial_ips options =
     (case options of
        None \<Rightarrow> [''127.0.0.1'']
      | Some opt \<Rightarrow>
          (case additionalIPs opt of
             None \<Rightarrow> [''127.0.0.1'']
           | Some ips \<Rightarrow> foldl addIP [''127.0.0.1''] ips))"

definition caExtData :: string where
  "caExtData =
     js_replace
       (nl @ ''    [ req ]'' @ nl @ ''    req_extensions=v3_ca'' @ nl
        @ ''    distinguished_name=req_distinguished_name'' @ nl @ nl
        @ ''    [ req_distinguished_name ]'' @ nl @ nl
        @ ''    [ v3_ca ]'' @ nl @ ''    basicConstraints=CA:true'' @ nl @ ''    '')
       two_spaces []"

definition ca_command :: "string \<Rightarrow> string" where
  "ca_command dir =
     opensslCA @ '' -keyout '' @ path_join dir ''symmetric_ca.key''
     @ '' -out '' @ path_join dir ''symmetric_ca.crt''
     @ '' -config '' @ path_join dir ''symmetric_ca.ext''
     @ '' -extensions v3_ca -subj '' @ caSubj"

definition trust_command :: "string \<Rightarrow> string" where
  "trust_command dir =
     ''security add-trusted-cert -k ~/Library/Keychains/login.keychain ''
     @ path_join dir ''symmetric_ca.crt''"

text \<open>Lines 53 to 86: the root certificate is made when its key or its certificate is missing.\<close>

definition ensure_ca :: "host \<Rightarrow> string \<Rightarrow> world \<Rightarrow> (error + unit) \<times> world" where
  "ensure_ca h dir w =
     (if \<not> existsSync (path_join dir ''symmetric_ca.key'') w
         \<or> \<not> existsSync (path_join dir ''symmetric_ca.crt'') w
      then
        (let w1 = writeFileSync (path_join dir ''symmetric_ca.ext'') caExtData w in
         case execSync h (ca_command dir) w1 of
           (Inl e, w2) \<Rightarrow> (Inl e, w2)
         | (Inr out, w2) \<Rightarrow>
             (let w3 = outputs h [path_join dir ''symmetric_ca.key'',
                                  path_join dir ''symmetric_ca.crt''] w2 in
              case execSync h (trust_command dir) w3 of
                (added, w4) \<Rightarrow> (Inr (), w4)))
      else (Inr (), w))"

definition uname_command :: string where
  "uname_command = ''uname -n''"

definition hostname_command :: string where
  "hostname_command = ''hostname --all-ip-addresses || hostname -I''"

definition ifconfig_command :: string where
  "ifconfig_command =
     ''ifconfig | grep '' @ [CHR 0x22] @ ''inet '' @ [CHR 0x22] @ '' | awk {''
     @ [CHR 0x27] @ ''print $2'' @ [CHR 0x27] @ ''}''"

definition dig_command :: string where
  "dig_command = ''dig +short myip.opendns.com @resolver1.opendns.com''"

text \<open>
  Lines 88 to 123: each probe is inside its own \<open>try\<close>, so a failing command adds
  nothing. The host name is pushed as it is; the addresses go through \<open>addIP\<close>.
\<close>

definition gather_hostname :: "host \<Rightarrow> string list \<Rightarrow> world \<Rightarrow> string list \<times> world" where
  "gather_hostname h altDomainNames w =
     (case execSync h uname_command w of
        (Inl e, w1) \<Rightarrow> (altDomainNames, w1)
      | (Inr out, w1) \<Rightarrow> (altDomainNames @ [js_trim out], w1))"

definition gather_lan :: "host \<Rightarrow> string list \<Rightarrow> world \<Rightarrow> string list \<times> world" where
  "gather_lan h altIPs w =
     (if platform h \<noteq> ''darwin''
      then (case execSync h hostname_command w of
              (Inl e, w1) \<Rightarrow> (altIPs, w1)
            | (Inr out, w1) \<Rightarrow> (foldl addIP altIPs (js_split CHR '' '' (js_trim out)), w1))
      else (case execSync h ifconfig_command w of
              (Inl e, w1) \<Rightarrow> (altIPs, w1)
            | (Inr out, w1) \<Rightarrow> (foldl addIP altIPs (js_split CHR 0x0A (js_trim out)), w1)))"

definition gather_public :: "host \<Rightarrow> string list \<Rightarrow> world \<Rightarrow> string list \<times> world" where
  "gather_public h altIPs w =
     (case execSync h dig_command w of
        (Inl e, w1) \<Rightarrow> (altIPs, w1)
      | (Inr out, w1) \<Rightarrow> (addIP altIPs (js_trim out), w1))"

definition numbered :: "string \<Rightarrow> string list \<Rightarrow> string list" where
  \<comment> \<open>\<open>xs.map((x, index) => `${label}.${index + 1} = ${x}`)\<close>\<close>
  "numbered label xs =
     map (\<lambda>(index, x). label @ ''.'' @ decimal (index + 1) @ '' = '' @ x) (enumerate 0 xs)"

definition extData :: "string list \<Rightarrow> string list \<Rightarrow> string" where
  "extData altDomainNames altIPs =
     js_replace
       (nl @ ''    subjectAltName = @alt_names'' @ nl @ nl
        @ ''    [ alt_names ]'' @ nl
        @ ''    '' @ js_join nl (numbered ''DNS'' altDomainNames) @ nl
        @ ''    '' @ js_join nl (numbered ''IP'' altIPs) @ nl @ ''  '')
       two_spaces []"

definition req_command :: "string \<Rightarrow> string" where
  "req_command dir =
     opensslReq @ '' -keyout '' @ path_join dir ''symmetric.key''
     @ '' -out '' @ path_join dir ''symmetric.csr'' @ '' -subj '' @ subj"

definition sign_command :: "string \<Rightarrow> string" where
  "sign_command dir =
     opensslSign @ '' -CA '' @ path_join dir ''symmetric_ca.crt''
     @ '' -CAkey '' @ path_join dir ''symmetric_ca.key''
     @ '' -CAcreateserial -in '' @ path_join dir ''symmetric.csr''
     @ '' -out '' @ path_join dir ''symmetric.crt''
     @ '' -extfile '' @ path_join dir ''symmetric.ext''"

text \<open>Lines 133 to 150: the leaf certificate is kept or made again.\<close>

definition ensure_leaf :: "host \<Rightarrow> string \<Rightarrow> string \<Rightarrow> world \<Rightarrow> (error + unit) \<times> world" where
  "ensure_leaf h dir doc w =
     (if existsSync (path_join dir ''symmetric.ext'') w
         \<and> readFileSync (path_join dir ''symmetric.ext'') w = Inr doc
         \<and> existsSync (path_join dir ''symmetric.key'') w
         \<and> existsSync (path_join dir ''symmetric.crt'') w
      then (Inr (), w)
      else
        (let w1 = writeFileSync (path_join dir ''symmetric.ext'') doc w in
         case execSync h (req_command dir) w1 of
           (Inl e, w2) \<Rightarrow> (Inl e, w2)
         | (Inr out, w2) \<Rightarrow>
             (let w3 = outputs h [path_join dir ''symmetric.key'',
                                  path_join dir ''symmetric.csr''] w2 in
              case execSync h (sign_command dir) w3 of
                (Inl e, w4) \<Rightarrow> (Inl e, w4)
              | (Inr out', w4) \<Rightarrow>
                  (Inr (), outputs h [path_join dir ''symmetric.crt''] w4))))"

text \<open>The alternative names as they stand when the document is written (lines 37 to 123).\<close>

definition gather_names :: "host \<Rightarrow> ssl_options option \<Rightarrow> world \<Rightarrow> (string list \<times> string list) \<times> world" where
  "gather_names h options w =
     (case gather_hostname h (initial_domains options) w of
        (altDomainNames, w1) \<Rightarrow>
          (case gather_lan h (initial_ips options) w1 of
             (altIPs, w2) \<Rightarrow>
               (case gather_public h altIPs w2 of
                  (altIPs', w3) \<Rightarrow> ((altDomainNames, altIPs'), w3))))"

definition createSelfSignedCert :: "host \<Rightarrow> ssl_options option \<Rightarrow> world \<Rightarrow> (error + ssl_files) \<times> world" where
  "createSelfSignedCert h options w =
     (let dir = storage_root h options in
      case ensure_ca h dir w of
        (Inl e, w1) \<Rightarrow> (Inl e, w1)
      | (Inr u, w1) \<Rightarrow>
          (case gather_names h options w1 of
             ((altDomainNames, altIPs), w2) \<Rightarrow>
               (case ensure_leaf h dir (extData altDomainNames altIPs) w2 of
                  (Inl e, w3) \<Rightarrow> (Inl e, w3)
                | (Inr u', w3) \<Rightarrow>
                    (Inr \<lparr>key = path_join dir ''symmetric.key'',
                          cert = path_join dir ''symmetric.crt'',
                          caKey = path_join dir ''symmetric_ca.key'',
                          caCert = path_join dir ''symmetric_ca.crt''\<rparr>, w3))))"

section \<open>server.js: the distribution server\<close>

text \<open>
  A \<open>ServerResponse\<close>: the status line and headers once \<open>writeHead\<close> has stored them,
  and the body once \<open>end\<close> has finished the message. Node documents that
  \<open>writeHead\<close> is called once per message and before \<open>end\<close>; in current versions
  of Node a call after the headers were sent throws \<open>ERR_HTTP_HEADERS_SENT\<close> (older
  ones let it pass without effect), and an \<open>end\<close> after the message is finished does
  nothing.
\<close>

record response =
  head :: "(nat \<times> (string \<times> string) list) option"
  body :: "string option"

definition writeHead :: "nat \<Rightarrow> (string \<times> string) list \<Rightarrow> response \<Rightarrow> (error + unit) \<times> response" where
  "writeHead status hs res =
     (if head res \<noteq> None then (Inl ERR_HTTP_HEADERS_SENT, res)
      else (Inr (), res\<lparr>head := Some (status, hs)\<rparr>))"

definition res_end :: "string \<Rightarrow> response \<Rightarrow> response" where
  "res_end d res = (if body res \<noteq> None then res else res\<lparr>body := Some d\<rparr>)"

definition notFound :: string where
  "notFound = ''404 - Not Found''"

definition respond :: "nat \<Rightarrow> string \<Rightarrow> string \<Rightarrow> response \<Rightarrow> (error + unit) \<times> response" where
  \<comment> \<open>\<open>res.writeHead(status, {'Content-Length': ..., 'Content-Type': type}); res.end(d)\<close>\<close>
  "respond status type d res =
     (case writeHead status [(''Content-Length'', decimal (length d)), (''Content-Type'', type)] res of
        (Inl e, res1) \<Rightarrow> (Inl e, res1)
      | (Inr u, res1) \<Rightarrow> (Inr (), res_end d res1))"

text \<open>
  The request listener of lines 264 to 283. The two routes are an \<open>if\<close> and an
  \<open>else if\<close>; the statements that answer 404 follow them and are not in an \<open>else\<close>.
\<close>

definition listener :: "string \<Rightarrow> string \<Rightarrow> string \<Rightarrow> response \<Rightarrow> (error + unit) \<times> response" where
  "listener index_html ca_cert req_url res =
     (case (if req_url = ''/'' then respond 200 ''text/html'' index_html res
            else if req_url = ''/symmetric_ca.crt'' then respond 200 ''application/x-x509-ca-cert'' ca_cert res
            else (Inr (), res)) of
        (Inl e, res1) \<Rightarrow> (Inl e, res1)
      | (Inr u, res1) \<Rightarrow> respond 404 ''text/plain'' notFound res1)"

definition certServer :: "host \<Rightarrow> string \<Rightarrow> world \<Rightarrow> (error + (string \<Rightarrow> response \<Rightarrow> (error + unit) \<times> response)) \<times> world" where
  "certServer h caCert_path w =
     (case readFileSync (path_join (dirname h) ''server.html'') w of
        Inl e \<Rightarrow> (Inl e, w)
      | Inr index_html \<Rightarrow>
          (case readFileSync caCert_path w of
             Inl e \<Rightarrow> (Inl e, w)
           | Inr ca_cert \<Rightarrow>
               (Inr (listener index_html ca_cert), w\<lparr>listening := listening w @ [3007]\<rparr>)))"

definition fresh_response :: response where
  "fresh_response = \<lparr>head = None, body = None\<rparr>"

section \<open>index.js: the proxy policy\<close>

definition STANDARD_PATHS :: "string list" where
  "STANDARD_PATHS = [''api'', ''login'', ''logout'', ''auth'', ''deauth'', ''setup'',
                     ''callback'', ''static'', ''__debug__'']"

definition STANDARD_SUBPATHS :: "string list" where
  "STANDARD_SUBPATHS = []"

definition BACKEND_COOKIE :: string where
  "BACKEND_COOKIE = ''proxybackend''"

record options =
  backend :: string
  paths :: "string list option"
  subpaths :: "string list option"
  originRewrites :: "string list option"
  insecure :: bool
  generateCert :: bool
  certServer_flag :: bool
  ssl :: "ssl_options option"

record request =
  url :: string
  "method" :: string

datatype bypass_result = Proxied | Bypass string

datatype header_value = Absent | Single string | Multi "string list"

text \<open>The headers of the backend's answer that the hooks read and change.\<close>

record incoming =
  set_cookie :: header_value
  content_type :: "string option"

text \<open>The answer to the client, as far as the body rewrite touches it.\<close>

record outgoing =
  content_encoding :: "string option"
  sent :: "string option"

datatype piping =
    Default_pipe
  | Buffered "string \<Rightarrow> outgoing \<Rightarrow> (error + unit) \<times> outgoing"

type_synonym res_hook = "string \<Rightarrow> incoming \<Rightarrow> string option \<Rightarrow> incoming \<times> piping"

record proxy =
  target :: string
  headers_Referer :: string
  autoRewrite :: bool
  logLevel :: string
  changeOrigin :: bool
  xfwd :: bool
  bypass :: "request \<Rightarrow> bypass_result"
  onProxyReq :: "string option \<Rightarrow> string option"
  onProxyRes :: res_hook
  protocolRewrite :: string
  proxy_ssl :: "(string \<times> string) option"

text \<open>
  \<open>new RegExp(source)\<close> for a source text taken from the configuration: every character
  stands for itself, except \<open>.\<close>, which stands for any character but a line
  terminator. A source with another syntax character is outside this model (\<open>None\<close>).
\<close>

definition syntax_character :: "char \<Rightarrow> bool" where
  "syntax_character c = (c \<in> set (''^$*+?()[]{}|'' @ [CHR 0x5C]))"

definition pattern_items :: "string \<Rightarrow> item list option" where
  "pattern_items source =
     (if list_ex syntax_character source then None
      else Some (map (\<lambda>c. if c = CHR ''.'' then Item AnyChar One else Item (Lit c) One) source))"

definition backendCookieRe :: "string \<Rightarrow> regexp option" where
  \<comment> \<open>\<open>new RegExp(`${BACKEND_COOKIE}=${backend};?`)\<close>\<close>
  "backendCookieRe backend_origin =
     (case pattern_items backend_origin of
        None \<Rightarrow> None
      | Some its \<Rightarrow>
          Some \<lparr>alternatives = [literally (BACKEND_COOKIE @ ''='') @ its @ [Item (Lit CHR '';'') Opt]],
                ignoreCase = False, global = False\<rparr>)"

definition sessionCookieRe :: regexp where
  \<comment> \<open>\<open>/sessionid=\w+;?/\<close>\<close>
  "sessionCookieRe =
     \<lparr>alternatives = [literally ''sessionid='' @ [Item WordChar Plus, Item (Lit CHR '';'') Opt]],
      ignoreCase = False, global = False\<rparr>"

definition slashes :: regexp where
  \<comment> \<open>\<open>/\//g\<close>\<close>
  "slashes = \<lparr>alternatives = [literally ''/''], ignoreCase = False, global = True\<rparr>"

definition secure_at_end :: regexp where
  \<comment> \<open>\<open>/secure\s*$/\<close>\<close>
  "secure_at_end =
     \<lparr>alternatives = [literally ''secure'' @ [Item SpaceChar Star, Eos]],
      ignoreCase = False, global = False\<rparr>"

definition origins_re :: "string list \<Rightarrow> regexp option" where
  \<comment> \<open>\<open>new RegExp(`${options.originRewrites.join('|')}`, 'ig')\<close>\<close>
  "origins_re origins =
     (if list_ex (\<lambda>origin. pattern_items origin = None) origins then None
      else Some \<lparr>alternatives = map (\<lambda>origin. the (pattern_items origin)) origins,
                 ignoreCase = True, global = True\<rparr>)"

definition element :: "'a list \<Rightarrow> nat \<Rightarrow> 'a option" where
  \<comment> \<open>\<open>xs[i]\<close>, \<open>undefined\<close> past the end\<close>
  "element xs i = (if i < length xs then Some (xs ! i) else None)"

primrec index_from :: "nat \<Rightarrow> string list \<Rightarrow> string \<Rightarrow> int" where
  "index_from i [] v = - 1"
| "index_from i (x # xs) v = (if x = v then int i else index_from (Suc i) xs v)"

definition indexOf :: "string list \<Rightarrow> string option \<Rightarrow> int" where
  \<comment> \<open>\<open>xs.indexOf(v)\<close> on an array of strings; \<open>undefined\<close> is never found\<close>
  "indexOf xs v = (case v of None \<Rightarrow> - 1 | Some s \<Rightarrow> index_from 0 xs s)"

definition splice_insert :: "int \<Rightarrow> 'a list \<Rightarrow> 'a list \<Rightarrow> 'a list" where
  \<comment> \<open>\<open>xs.splice(start, 0, ...items)\<close>: a negative start counts from the end\<close>
  "splice_insert start items xs =
     (let len = int (length xs);
          at = nat (if start < 0 then max (len + start) 0 else min start len)
      in take at xs @ items @ drop at xs)"

text \<open>Lines 48 to 58: what becomes of an array of paths.\<close>

definition normalise :: "string list \<Rightarrow> string list \<Rightarrow> string list" where
  "normalise standard xs =
     splice_insert (- 1) standard (map (\<lambda>path. js_replace path slashes []) xs)"

definition bypass_of :: "string list \<Rightarrow> string list \<Rightarrow> request \<Rightarrow> bypass_result" where
  "bypass_of paths' subpaths' req =
     (let parts = js_split CHR ''/'' (url req) in
      if (method req \<noteq> ''GET'' \<and> method req \<noteq> ''HEAD'')
         \<or> indexOf paths' (element parts 1) \<noteq> - 1
         \<or> indexOf subpaths' (element parts 2) \<noteq> - 1
      then Proxied
      else Bypass (url req))"

definition onProxyReq_of :: "regexp \<Rightarrow> string option \<Rightarrow> string option" where
  \<comment> \<open>from the \<open>cookie\<close> header of the request to the backend to the header it leaves\<close>
  "onProxyReq_of re cookies =
     (case cookies of
        None \<Rightarrow> None
      | Some c \<Rightarrow>
          if c \<noteq> [] \<and> \<not> re_test re c then Some (js_replace c sessionCookieRe [])
          else Some c)"

definition marker_cookie :: "string \<Rightarrow> string \<Rightarrow> string" where
  \<comment> \<open>\<open>expires\<close> is \<open>toUTCString()\<close> of the date 365 days after now\<close>
  "marker_cookie backend_origin expires =
     BACKEND_COOKIE @ ''='' @ backend_origin @ ''; expires='' @ expires @ ''; path=/''"

definition expired_session :: string where
  "expired_session = ''sessionid=; expires=Thu, 01 Jan 1970 00:00:01 GMT; path=/''"

definition as_array :: "header_value \<Rightarrow> string list" where
  \<comment> \<open>\<open>proxyRes.headers['set-cookie'] || []\<close>, then wrapped when it is not an array\<close>
  "as_array v =
     (case v of
        Absent \<Rightarrow> []
      | Single s \<Rightarrow> if s = [] then [] else [s]
      | Multi xs \<Rightarrow> xs)"

definition onProxyRes_of :: "string \<Rightarrow> regexp \<Rightarrow> string \<Rightarrow> incoming \<Rightarrow> string option \<Rightarrow> incoming" where
  "onProxyRes_of backend_origin re expires proxyRes cookie =
     (if \<not> re_test re (case cookie of None \<Rightarrow> [] | Some c \<Rightarrow> c)
      then
        (let resCookies = as_array (set_cookie proxyRes) @ [marker_cookie backend_origin expires];
             resCookies' =
               (if length (filter (re_test sessionCookieRe) resCookies) = 0
                then resCookies @ [expired_session]
                else resCookies)
         in proxyRes\<lparr>set_cookie := Multi resCookies'\<rparr>)
      else proxyRes)"

text \<open>
  Lines 116 to 124. On an array each entry is replaced; on a single string the
  assignments to its indices have no effect.
\<close>

definition strip_secure :: "header_value \<Rightarrow> header_value" where
  "strip_secure cookies =
     (case cookies of
        Absent \<Rightarrow> Absent
      | Single s \<Rightarrow> Single s
      | Multi xs \<Rightarrow> Multi (map (\<lambda>cookie. js_replace cookie secure_at_end []) xs))"

definition insecure_hook :: "res_hook \<Rightarrow> res_hook" where
  "insecure_hook inner expires proxyRes cookie =
     inner expires (proxyRes\<lparr>set_cookie := strip_secure (set_cookie proxyRes)\<rparr>) cookie"

text \<open>
  Lines 164 to 172: the listener for the end of the backend's answer, given the
  whole buffered body.
\<close>

definition rewrite_body :: "host \<Rightarrow> regexp \<Rightarrow> string \<Rightarrow> outgoing \<Rightarrow> (error + unit) \<times> outgoing" where
  "rewrite_body h re buffered res =
     (case (if content_encoding res = Some ''gzip'' then gunzipSync h buffered else Some buffered) of
        None \<Rightarrow> (Inl Gunzip_failed, res)
      | Some plain \<Rightarrow>
          (Inr (), res\<lparr>content_encoding := None, sent := Some (js_replace plain re [])\<rparr>))"

definition rewriting_hook :: "host \<Rightarrow> regexp \<Rightarrow> res_hook \<Rightarrow> res_hook" where
  "rewriting_hook h re inner expires proxyRes cookie =
     (case inner expires proxyRes cookie of
        (proxyRes', pipe) \<Rightarrow>
          (case content_type proxyRes' of
             None \<Rightarrow> (proxyRes', pipe)
           | Some ct \<Rightarrow>
               if ct \<noteq> [] \<and> js_includes ct ''text/html''
               then (proxyRes', Buffered (rewrite_body h re))
               else (proxyRes', pipe)))"

text \<open>Lines 129 to 144: the certificate and, when asked for, the distribution server.\<close>

definition wants_cert :: "host \<Rightarrow> options \<Rightarrow> bool" where
  "wants_cert h opts =
     (generateCert opts \<or> env h ''GENERATE_CERT'' = Some ''true''
      \<or> list_ex (\<lambda>arg. js_includes arg ''webpack-dev-server'') (argv h))"

definition tls_material :: "host \<Rightarrow> options \<Rightarrow> world \<Rightarrow> (error + (string \<times> string) option) \<times> world" where
  "tls_material h opts w =
     (if wants_cert h opts then
        (case createSelfSignedCert h (ssl opts) w of
           (Inl e, w1) \<Rightarrow> (Inl e, w1)
         | (Inr sslFiles, w1) \<Rightarrow>
             (case readFileSync (key sslFiles) w1 of
                Inl e \<Rightarrow> (Inl e, w1)
              | Inr k \<Rightarrow>
                  (case readFileSync (cert sslFiles) w1 of
                     Inl e \<Rightarrow> (Inl e, w1)
                   | Inr c \<Rightarrow>
                       if certServer_flag opts \<or> env h ''CERT_SERVER'' = Some ''true''
                       then (case certServer h (caCert sslFiles) w1 of
                               (Inl e, w2) \<Rightarrow> (Inl e, w2)
                             | (Inr serving, w2) \<Rightarrow> (Inr (Some (k, c)), w2))
                       else (Inr (Some (k, c)), w1))))
      else (Inr None, w))"

text \<open>Lines 60 to 109: the policy before the two modes are told apart.\<close>

definition base_proxy :: "host \<Rightarrow> options \<Rightarrow> regexp \<Rightarrow> string list \<Rightarrow> string list \<Rightarrow> proxy" where
  "base_proxy h opts re paths' subpaths' =
     (let debug = js_includes (case env h ''DEBUG'' of None \<Rightarrow> [] | Some d \<Rightarrow> d) ''webpack'' in
      \<lparr>target = backend opts,
       headers_Referer = backend opts,
       autoRewrite = True,
       logLevel = (if debug then ''debug'' else ''info''),
       changeOrigin = True,
       xfwd = True,
       bypass = bypass_of paths' subpaths',
       onProxyReq = onProxyReq_of re,
       onProxyRes = (\<lambda>expires proxyRes cookie.
          (onProxyRes_of (backend opts) re expires proxyRes cookie, Default_pipe)),
       protocolRewrite = [],
       proxy_ssl = None\<rparr>)"

text \<open>Lines 111 to 145.\<close>

definition with_mode :: "host \<Rightarrow> options \<Rightarrow> proxy \<Rightarrow> world \<Rightarrow> (error + proxy) \<times> world" where
  "with_mode h opts p w =
     (if insecure opts
      then (Inr (p\<lparr>protocolRewrite := ''http'', onProxyRes := insecure_hook (onProxyRes p)\<rparr>), w)
      else (case tls_material h opts w of
              (Inl e, w1) \<Rightarrow> (Inl e, w1)
            | (Inr tls, w1) \<Rightarrow> (Inr (p\<lparr>protocolRewrite := ''https'', proxy_ssl := tls\<rparr>), w1)))"

text \<open>Lines 147 to 175.\<close>

definition with_rewrites :: "host \<Rightarrow> options \<Rightarrow> proxy \<Rightarrow> error + proxy" where
  "with_rewrites h opts p =
     (case originRewrites opts of
        None \<Rightarrow> Inr p
      | Some origins \<Rightarrow>
          if origins = [] then Inr p
          else (case origins_re origins of
                  None \<Rightarrow> Inl (Unmodelled_pattern (js_join ''|'' origins))
                | Some re \<Rightarrow> Inr (p\<lparr>onProxyRes := rewriting_hook h re (onProxyRes p)\<rparr>)))"

text \<open>
  The policy, and the options object as the call leaves it: an array of paths that the
  caller passed is changed in place; one that was left out is a new array of the call.
\<close>

definition createBackendProxy :: "host \<Rightarrow> options \<Rightarrow> world \<Rightarrow> (error + proxy \<times> options) \<times> world" where
  "createBackendProxy h opts w =
     (case backendCookieRe (backend opts) of
        None \<Rightarrow> (Inl (Unmodelled_pattern (backend opts)), w)
      | Some re \<Rightarrow>
          (let paths' = normalise STANDARD_PATHS (case paths opts of None \<Rightarrow> [] | Some xs \<Rightarrow> xs);
               subpaths' = normalise STANDARD_SUBPATHS (case subpaths opts of None \<Rightarrow> [] | Some xs \<Rightarrow> xs);
               opts' = opts\<lparr>paths := map_option (\<lambda>xs. paths') (paths opts),
                            subpaths := map_option (\<lambda>xs. subpaths') (subpaths opts)\<rparr>
           in case with_mode h opts (base_proxy h opts re paths' subpaths') w of
                (Inl e, w1) \<Rightarrow> (Inl e, w1)
              | (Inr p, w1) \<Rightarrow>
                  (case with_rewrites h opts p of
                     Inl e \<Rightarrow> (Inl e, w1)
                   | Inr p' \<Rightarrow> (Inr (p', opts'), w1))))"

subsection \<open>The earlier copy of the request hook\<close>

text \<open>
  The second copy of the module has this hook (its lines 64 to 69):
  \<^verbatim>\<open>
  onProxyReq: (proxyReq, req) => {
    // If backend does not match, omit the sessionid so that a new one is made
    if (!backendCookieRe.test(req.headers.cookie || '')) {
      req.headers.cookie.replace(sessionCookieRe, '');
    }
  },
  \<close>
  The value of \<open>replace\<close> is dropped, and \<open>replace\<close> is called on \<open>undefined\<close> when the
  request has no cookie header.
\<close>

definition onProxyReq_earlier :: "regexp \<Rightarrow> string option \<Rightarrow> error + string option" where
  "onProxyReq_earlier re cookie =
     (if \<not> re_test re (case cookie of None \<Rightarrow> [] | Some c \<Rightarrow> c)
      then (case cookie of
              None \<Rightarrow> Inl TypeError
            | Some c \<Rightarrow> (let dropped = js_replace c sessionCookieRe [] in Inr (Some c)))
      else Inr cookie)"

section \<open>Notions of the specification\<close>




definition marker_matches :: "string \<Rightarrow> string option \<Rightarrow> bool" where
  \<comment> \<open>\<open>backendCookieRe.test(cookie || '')\<close>: the request carries the marker of this backend\<close>
  "marker_matches backend_origin cookie =
     (case backendCookieRe backend_origin of
        None \<Rightarrow> False
      | Some re \<Rightarrow> re_test re (case cookie of None \<Rightarrow> [] | Some c \<Rightarrow> c))"

definition deliver :: "piping \<Rightarrow> string \<Rightarrow> outgoing \<Rightarrow> (error + unit) \<times> outgoing" where
  \<comment> \<open>what the client is sent for a body from the backend: the proxy engine's own pipe
      copies the body as it comes; a buffering listener decides by itself\<close>
  "deliver pipe upstream res =
     (case pipe of
        Default_pipe \<Rightarrow> (Inr (), res\<lparr>sent := Some upstream\<rparr>)
      | Buffered on_end \<Rightarrow> on_end upstream res)"

text \<open>The three probes for alternative names, in the order in which a call runs them.\<close>

definition probes :: "host \<Rightarrow> string list" where
  "probes h =
     [uname_command,
      if platform h \<noteq> ''darwin'' then hostname_command else ifconfig_command,
      dig_command]"


definition fresh_document :: "host \<Rightarrow> ssl_options option \<Rightarrow> world \<Rightarrow> string" where
  \<comment> \<open>the SAN-extension document that a call computes\<close>
  "fresh_document h options w =
     (case fst (gather_names h options w) of
        (altDomainNames, altIPs) \<Rightarrow> extData altDomainNames altIPs)"

section \<open>Example configurations\<close>

definition quiet_host :: host where
  \<comment> \<open>a Linux machine on which every command succeeds and prints nothing\<close>
  "quiet_host =
     \<lparr>exec = (\<lambda>cmd. Some []),
      written = (\<lambda>p. ''made for '' @ p),
      env = (\<lambda>name. None),
      argv = [''node'', ''webpack''],
      platform = ''linux'',
      homedir = ''/home/dev'',
      dirname = ''/app/src'',
      gunzipSync = (\<lambda>d. Some d)\<rparr>"

definition container_host :: host where
  \<comment> \<open>a machine whose host name is \<open>localhost\<close>\<close>
  "container_host =
     quiet_host\<lparr>exec := (\<lambda>cmd.
        if cmd = uname_command then Some (''localhost'' @ nl)
        else if cmd = hostname_command then Some (''10.0.0.5 '' @ nl)
        else if cmd = dig_command then Some (''203.0.113.7'' @ nl)
        else Some [])\<rparr>"

definition empty_world :: world where
  "empty_world = \<lparr>files = Map.empty, execd = [], listening = []\<rparr>"


definition plain_options :: options where
  "plain_options =
     \<lparr>backend = ''http://b1'',
      paths = Some [''/shop/'', ''admin''],
      subpaths = Some [''export''],
      originRewrites = None,
      insecure = True,
      generateCert = False,
      certServer_flag = False,
      ssl = None\<rparr>"

definition plain_policy :: proxy where
  "plain_policy = fst (projr (fst (createBackendProxy quiet_host plain_options empty_world)))"

definition plain_options_after :: options where
  "plain_options_after = snd (projr (fst (createBackendProxy quiet_host plain_options empty_world)))"

definition plain_options_after_two :: options where
  "plain_options_after_two =
     snd (projr (fst (createBackendProxy quiet_host plain_options_after empty_world)))"

definition tls_options :: options where
  \<comment> \<open>not insecure; outside the dev server no certificate is made\<close>
  "tls_options = plain_options\<lparr>insecure := False\<rparr>"

definition tls_policy :: proxy where
  "tls_policy = fst (projr (fst (createBackendProxy quiet_host tls_options empty_world)))"

definition rewriting_options :: options where
  "rewriting_options = plain_options\<lparr>originRewrites := Some [''http://internal.example'']\<rparr>"

definition rewriting_policy :: proxy where
  "rewriting_policy =
     fst (projr (fst (createBackendProxy quiet_host rewriting_options empty_world)))"

definition html_headers :: incoming where
  "html_headers = \<lparr>set_cookie = Absent, content_type = Some ''text/html; charset=utf-8''\<rparr>"

definition plain_answer :: outgoing where
  "plain_answer = \<lparr>content_encoding = None, sent = None\<rparr>"

section \<open>Arrays, strings and regular expressions\<close>



lemma set_splice_insert: "set (splice_insert start items xs) = set items \<union> set xs"
proof -
  have "set (take n xs) \<union> set (drop n xs) = set xs" for n
    by (metis append_take_drop_id set_append)
  then show ?thesis
    unfolding splice_insert_def Let_def by auto
qed

lemma replace_all_slash:
  "replace_all False [literally ''/''] [] s = filter (\<lambda>c. c \<noteq> CHR ''/'') s"
  by (induction s) (simp_all add: literally_def)

lemma strip_slashes: "js_replace s slashes [] = filter (\<lambda>c. c \<noteq> CHR ''/'') s"
  by (simp add: js_replace_def slashes_def replace_all_slash)


lemma js_split_nonempty: "js_split sep s \<noteq> []"
  by (induction s) (auto split: list.splits)



section \<open>The policy that is returned\<close>

lemma with_mode_fields:
  assumes "with_mode h opts p w = (Inr p', w')"
  shows "bypass p' = bypass p" and "onProxyReq p' = onProxyReq p"
    and "protocolRewrite p' = (if insecure opts then ''http'' else ''https'')"
    and "onProxyRes p' = (if insecure opts then insecure_hook (onProxyRes p) else onProxyRes p)"
  using assms unfolding with_mode_def
  by (auto split: if_splits prod.splits sum.splits)

lemma with_rewrites_fields:
  assumes "with_rewrites h opts p = Inr p'"
  shows "bypass p' = bypass p" and "onProxyReq p' = onProxyReq p"
    and "protocolRewrite p' = protocolRewrite p"
  using assms unfolding with_rewrites_def
  by (auto split: if_splits option.splits)

lemma createBackendProxy_returned:
  assumes "createBackendProxy h opts w = (Inr (p, opts'), w')"
  obtains re p0 p1 where
    "backendCookieRe (backend opts) = Some re"
    "p0 = base_proxy h opts re
            (normalise STANDARD_PATHS (case paths opts of None \<Rightarrow> [] | Some xs \<Rightarrow> xs))
            (normalise STANDARD_SUBPATHS (case subpaths opts of None \<Rightarrow> [] | Some xs \<Rightarrow> xs))"
    "with_mode h opts p0 w = (Inr p1, w')"
    "with_rewrites h opts p1 = Inr p"
    "opts' = opts\<lparr>paths := map_option (\<lambda>xs. normalise STANDARD_PATHS xs) (paths opts),
                  subpaths := map_option (\<lambda>xs. normalise STANDARD_SUBPATHS xs) (subpaths opts)\<rparr>"
  using assms unfolding createBackendProxy_def Let_def
  by (auto split: option.splits prod.splits sum.splits)





section \<open>The certificate bootstrap, stage by stage\<close>



lemma ensure_ca_made:
  "\<not> existsSync (path_join dir ''symmetric_ca.key'') w
     \<or> \<not> existsSync (path_join dir ''symmetric_ca.crt'') w \<Longrightarrow>
   exec h (ca_command dir) = Some out \<Longrightarrow>
   ensure_ca h dir w =
     (Inr (),
      w\<lparr>files := (files w)
          (path_join dir ''symmetric_ca.ext'' \<mapsto> caExtData,
           path_join dir ''symmetric_ca.key'' \<mapsto> written h (path_join dir ''symmetric_ca.key''),
           path_join dir ''symmetric_ca.crt'' \<mapsto> written h (path_join dir ''symmetric_ca.crt'')),
        execd := execd w @ [ca_command dir, trust_command dir]\<rparr>)"
  by (auto simp add: ensure_ca_def execSync_def writeFileSync_def outputs_def Let_def
      split: option.splits)

lemma gather_names_world:
  "gather_names h options w =
     (fst (gather_names h options w0), w\<lparr>execd := execd w @ probes h\<rparr>)"
  by (simp add: gather_names_def gather_hostname_def gather_lan_def gather_public_def
      execSync_def probes_def split: option.splits prod.splits)


lemma ensure_leaf_unfolded:
  "\<not> (files w (path_join dir ''symmetric.ext'') = Some doc
      \<and> existsSync (path_join dir ''symmetric.key'') w
      \<and> existsSync (path_join dir ''symmetric.crt'') w) \<Longrightarrow>
   ensure_leaf h dir doc w =
     (case exec h (req_command dir) of
        None \<Rightarrow>
          (Inl (Command_failed (req_command dir)),
           w\<lparr>files := (files w)(path_join dir ''symmetric.ext'' \<mapsto> doc),
             execd := execd w @ [req_command dir]\<rparr>)
      | Some out \<Rightarrow>
          (case exec h (sign_command dir) of
             None \<Rightarrow>
               (Inl (Command_failed (sign_command dir)),
                w\<lparr>files := (files w)
                    (path_join dir ''symmetric.ext'' \<mapsto> doc,
                     path_join dir ''symmetric.key'' \<mapsto> written h (path_join dir ''symmetric.key''),
                     path_join dir ''symmetric.csr'' \<mapsto> written h (path_join dir ''symmetric.csr'')),
                  execd := execd w @ [req_command dir, sign_command dir]\<rparr>)
           | Some out' \<Rightarrow>
               (Inr (),
                w\<lparr>files := (files w)
                    (path_join dir ''symmetric.ext'' \<mapsto> doc,
                     path_join dir ''symmetric.key'' \<mapsto> written h (path_join dir ''symmetric.key''),
                     path_join dir ''symmetric.csr'' \<mapsto> written h (path_join dir ''symmetric.csr''),
                     path_join dir ''symmetric.crt'' \<mapsto> written h (path_join dir ''symmetric.crt'')),
                  execd := execd w @ [req_command dir, sign_command dir]\<rparr>)))"
  by (auto simp add: ensure_leaf_def existsSync_def readFileSync_def execSync_def
      writeFileSync_def outputs_def Let_def split: option.splits)



lemma createSelfSignedCert_after_ca:
  assumes "dir = storage_root h options" and "ensure_ca h dir w = (Inr (), w1)"
  shows "createSelfSignedCert h options w =
           (case ensure_leaf h dir (fresh_document h options w)
                   (w1\<lparr>execd := execd w1 @ probes h\<rparr>) of
              (Inl e, w3) \<Rightarrow> (Inl e, w3)
            | (Inr u, w3) \<Rightarrow>
                (Inr \<lparr>key = path_join dir ''symmetric.key'',
                      cert = path_join dir ''symmetric.crt'',
                      caKey = path_join dir ''symmetric_ca.key'',
                      caCert = path_join dir ''symmetric_ca.crt''\<rparr>, w3))"
proof -
  have g: "gather_names h options w1 =
             (fst (gather_names h options w), w1\<lparr>execd := execd w1 @ probes h\<rparr>)"
    by (rule gather_names_world)
  show ?thesis
    using assms
    by (simp add: createSelfSignedCert_def g fresh_document_def Let_def
        split: prod.splits sum.splits)
qed












section \<open>The hooks of the policy\<close>

lemma rewriting_hook_headers:
  "fst (rewriting_hook h re inner expires proxyRes cookie) = fst (inner expires proxyRes cookie)"
  by (simp add: rewriting_hook_def split: prod.splits option.splits)

lemma createBackendProxy_hooks:
  assumes "createBackendProxy h opts w = (Inr (p, opts'), w')"
  shows "\<exists>re. backendCookieRe (backend opts) = Some re
           \<and> onProxyReq p = onProxyReq_of re
           \<and> protocolRewrite p = (if insecure opts then ''http'' else ''https'')
           \<and> (\<forall>expires proxyRes cookie.
                 fst (onProxyRes p expires proxyRes cookie) =
                   onProxyRes_of (backend opts) re expires
                     (if insecure opts
                      then proxyRes\<lparr>set_cookie := strip_secure (set_cookie proxyRes)\<rparr>
                      else proxyRes) cookie)"
proof -
  from assms obtain re p0 p1 where
    re: "backendCookieRe (backend opts) = Some re"
    and p0: "p0 = base_proxy h opts re
            (normalise STANDARD_PATHS (case paths opts of None \<Rightarrow> [] | Some xs \<Rightarrow> xs))
            (normalise STANDARD_SUBPATHS (case subpaths opts of None \<Rightarrow> [] | Some xs \<Rightarrow> xs))"
    and p1: "with_mode h opts p0 w = (Inr p1, w')"
    and p: "with_rewrites h opts p1 = Inr p"
    by (rule createBackendProxy_returned)
  have req: "onProxyReq p = onProxyReq_of re"
    using with_rewrites_fields(2) [OF p] with_mode_fields(2) [OF p1] p0
    by (simp add: base_proxy_def Let_def)
  have proto: "protocolRewrite p = (if insecure opts then ''http'' else ''https'')"
    using with_rewrites_fields(3) [OF p] with_mode_fields(3) [OF p1] by simp
  have h1: "fst (onProxyRes p1 expires proxyRes cookie) =
         onProxyRes_of (backend opts) re expires
           (if insecure opts then proxyRes\<lparr>set_cookie := strip_secure (set_cookie proxyRes)\<rparr>
            else proxyRes) cookie" for expires proxyRes cookie
    using with_mode_fields(4) [OF p1] p0
    by (simp add: base_proxy_def Let_def insecure_hook_def)
  have "fst (onProxyRes p expires proxyRes cookie) = fst (onProxyRes p1 expires proxyRes cookie)"
    for expires proxyRes cookie
    using p unfolding with_rewrites_def
    by (auto simp add: rewriting_hook_headers split: option.splits if_splits)
  with h1 have res: "fst (onProxyRes p expires proxyRes cookie) =
         onProxyRes_of (backend opts) re expires
           (if insecure opts then proxyRes\<lparr>set_cookie := strip_secure (set_cookie proxyRes)\<rparr>
            else proxyRes) cookie" for expires proxyRes cookie
    by simp
  from re req proto res show ?thesis by blast
qed




section \<open>The caller's arrays\<close>

lemma length_splice_insert: "length (splice_insert start items xs) = length xs + length items"
  unfolding splice_insert_def Let_def by simp

lemma splice_insert_nothing: "splice_insert start [] xs = xs"
  unfolding splice_insert_def Let_def by simp

lemma normalise_subpaths:
  "normalise STANDARD_SUBPATHS xs = map (filter (\<lambda>c. c \<noteq> CHR ''/'')) xs"
  by (simp add: normalise_def STANDARD_SUBPATHS_def splice_insert_nothing strip_slashes)

lemma normalise_paths:
  "normalise STANDARD_PATHS xs
     = splice_insert (- 1) STANDARD_PATHS (map (filter (\<lambda>c. c \<noteq> CHR ''/'')) xs)"
  by (simp add: normalise_def strip_slashes)

lemma createBackendProxy_options:
  assumes "createBackendProxy h opts w = (Inr (p, opts'), w')"
  shows "opts' = opts\<lparr>paths := map_option (normalise STANDARD_PATHS) (paths opts),
                      subpaths := map_option (normalise STANDARD_SUBPATHS) (subpaths opts)\<rparr>"
  using assms by (elim createBackendProxy_returned) simp

lemma insecure_returns:
  assumes "insecure opts" and "originRewrites opts = None"
    and "backendCookieRe (backend opts) = Some re"
  shows "\<exists>p. createBackendProxy h opts w =
           (Inr (p, opts\<lparr>paths := map_option (normalise STANDARD_PATHS) (paths opts),
                          subpaths := map_option (normalise STANDARD_SUBPATHS) (subpaths opts)\<rparr>),
            w)"
  using assms
  by (cases "paths opts"; cases "subpaths opts")
     (simp_all add: createBackendProxy_def with_mode_def with_rewrites_def Let_def)

lemma backendCookieRe_b1: "\<exists>re. backendCookieRe ''http://b1'' = Some re"
  by (simp add: backendCookieRe_def pattern_items_def syntax_character_def)

lemma plain_options_facts:
  "insecure plain_options" "originRewrites plain_options = None"
  "backend plain_options = ''http://b1''"
  by (simp_all add: plain_options_def)

lemma plain_options_after_eq:
  "plain_options_after =
     plain_options\<lparr>paths := map_option (normalise STANDARD_PATHS) (paths plain_options),
                   subpaths := map_option (normalise STANDARD_SUBPATHS) (subpaths plain_options)\<rparr>"
proof -
  obtain re where "backendCookieRe (backend plain_options) = Some re"
    using backendCookieRe_b1 by (auto simp add: plain_options_facts)
  from insecure_returns [OF plain_options_facts(1,2) this, of quiet_host empty_world]
  obtain p where "createBackendProxy quiet_host plain_options empty_world =
      (Inr (p, plain_options\<lparr>paths := map_option (normalise STANDARD_PATHS) (paths plain_options),
                   subpaths := map_option (normalise STANDARD_SUBPATHS) (subpaths plain_options)\<rparr>),
       empty_world)"
    by blast
  then show ?thesis
    unfolding plain_options_after_def by simp
qed

lemma plain_options_after_facts:
  "insecure plain_options_after" "originRewrites plain_options_after = None"
  "backend plain_options_after = ''http://b1''"
  by (simp_all add: plain_options_after_eq plain_options_facts)

lemma plain_options_after_two_eq:
  "plain_options_after_two =
     plain_options_after\<lparr>paths := map_option (normalise STANDARD_PATHS) (paths plain_options_after),
                   subpaths := map_option (normalise STANDARD_SUBPATHS) (subpaths plain_options_after)\<rparr>"
proof -
  obtain re where "backendCookieRe (backend plain_options_after) = Some re"
    using backendCookieRe_b1 by (auto simp add: plain_options_after_facts)
  from insecure_returns [OF plain_options_after_facts(1,2) this, of quiet_host empty_world]
  obtain p where "createBackendProxy quiet_host plain_options_after empty_world =
      (Inr (p, plain_options_after\<lparr>paths := map_option (normalise STANDARD_PATHS) (paths plain_options_after),
                   subpaths := map_option (normalise STANDARD_SUBPATHS) (subpaths plain_options_after)\<rparr>),
       empty_world)"
    by blast
  then show ?thesis
    unfolding plain_options_after_two_def by simp
qed

text \<open>
  C10 as stated fails: the array of subpaths does not grow. The standard set of
  second-level paths is empty, so the call stores the caller's subpaths without their
  slashes and inserts nothing.
\<close>

theorem subpaths_do_not_grow_counterexample:
  "subpaths plain_options = Some [''export'']
   \<and> subpaths plain_options_after = Some [''export'']
   \<and> subpaths plain_options_after_two = Some [''export'']"
  by (simp add: plain_options_after_two_eq plain_options_after_eq plain_options_def
      normalise_subpaths)

text \<open>
  C10, amended. A call changes the arrays of paths and subpaths that the caller passed, in
  place: each entry loses its slash characters, and the standard sets are inserted before
  the last entry. The standard top-level set has nine entries and the standard
  second-level set has none: with each call the array of paths grows by nine entries (a
  second call on the same object inserts the standard paths again) and the array of
  subpaths keeps its length.
\<close>

theorem caller_arrays_after_calls:
  assumes "createBackendProxy h opts w = (Inr (p, opts'), w')"
    and "createBackendProxy h2 opts' w2 = (Inr (p2, opts''), w2')"
  shows "paths opts' = map_option (\<lambda>xs. splice_insert (- 1) STANDARD_PATHS
                                      (map (filter (\<lambda>c. c \<noteq> CHR ''/'')) xs)) (paths opts)
       \<and> paths opts'' = map_option (\<lambda>xs. splice_insert (- 1) STANDARD_PATHS
                                      (map (filter (\<lambda>c. c \<noteq> CHR ''/'')) xs)) (paths opts')
       \<and> subpaths opts' = map_option (map (filter (\<lambda>c. c \<noteq> CHR ''/''))) (subpaths opts)
       \<and> subpaths opts'' = subpaths opts'
       \<and> (\<forall>xs. paths opts = Some xs \<longrightarrow>
             (\<exists>ys zs. paths opts' = Some ys \<and> length ys = length xs + 9
                      \<and> set STANDARD_PATHS \<subseteq> set ys
                      \<and> paths opts'' = Some zs \<and> length zs = length xs + 18))
       \<and> (\<forall>xs. subpaths opts = Some xs \<longrightarrow>
             (\<exists>ys. subpaths opts'' = Some ys \<and> length ys = length xs))"
proof -
  let ?strip = "map (filter (\<lambda>c. c \<noteq> CHR ''/''))"
  note o1 = createBackendProxy_options [OF assms(1)]
  note o2 = createBackendProxy_options [OF assms(2)]
  have p1: "paths opts' = map_option (\<lambda>xs. splice_insert (- 1) STANDARD_PATHS (?strip xs)) (paths opts)"
    by (subst o1) (simp add: normalise_paths [abs_def])
  have p2: "paths opts'' = map_option (\<lambda>xs. splice_insert (- 1) STANDARD_PATHS (?strip xs)) (paths opts')"
    by (subst o2) (simp add: normalise_paths [abs_def])
  have s1: "subpaths opts' = map_option ?strip (subpaths opts)"
    by (subst o1) (simp add: normalise_subpaths [abs_def])
  have s2': "subpaths opts'' = map_option ?strip (subpaths opts')"
    by (subst o2) (simp add: normalise_subpaths [abs_def])
  have s2: "subpaths opts'' = subpaths opts'"
    unfolding s2' s1 by (cases "subpaths opts") simp_all
  have nine: "length STANDARD_PATHS = 9"
    by (simp add: STANDARD_PATHS_def)
  have grow: "\<exists>ys zs. paths opts' = Some ys \<and> length ys = length xs + 9
                      \<and> set STANDARD_PATHS \<subseteq> set ys
                      \<and> paths opts'' = Some zs \<and> length zs = length xs + 18"
    if "paths opts = Some xs" for xs
    unfolding p2 p1 using that
    by (simp add: length_splice_insert set_splice_insert nine)
  have keep: "\<exists>ys. subpaths opts'' = Some ys \<and> length ys = length xs"
    if "subpaths opts = Some xs" for xs
    unfolding s2 s1 using that by simp
  from p1 p2 s1 s2 grow keep show ?thesis by blast
qed

theorem caller_arrays_after_calls_witness:
  "paths plain_options = Some [''/shop/'', ''admin'']
   \<and> paths plain_options_after =
       Some [''shop'', ''api'', ''login'', ''logout'', ''auth'', ''deauth'', ''setup'',
             ''callback'', ''static'', ''__debug__'', ''admin'']
   \<and> (\<exists>zs. paths plain_options_after_two = Some zs \<and> length zs = 20)"
proof -
  obtain re where re: "backendCookieRe (backend plain_options) = Some re"
    using backendCookieRe_b1 by (auto simp add: plain_options_facts)
  from insecure_returns [OF plain_options_facts(1,2) this, of quiet_host empty_world]
  obtain p where r1: "createBackendProxy quiet_host plain_options empty_world
                   = (Inr (p, plain_options_after), empty_world)"
    unfolding plain_options_after_eq by blast
  from re have "backendCookieRe (backend plain_options_after) = Some re"
    by (simp add: plain_options_after_facts plain_options_facts)
  from insecure_returns [OF plain_options_after_facts(1,2) this, of quiet_host empty_world]
  obtain p2 where r2: "createBackendProxy quiet_host plain_options_after empty_world
                   = (Inr (p2, plain_options_after_two), empty_world)"
    unfolding plain_options_after_two_eq by blast
  have xs: "paths plain_options = Some [''/shop/'', ''admin'']"
    by (simp add: plain_options_def)
  from caller_arrays_after_calls [OF r1 r2] xs
  show ?thesis
    by (auto simp add: splice_insert_def STANDARD_PATHS_def)
qed

section \<open>The lists of alternative names\<close>

text \<open>
  Both lists keep their seed in front. The addresses, and the domains given by the caller,
  are free of repetitions; the host name comes on top of the domains unchecked.
\<close>

lemma foldl_addIP:
  "distinct xs \<Longrightarrow> distinct (foldl addIP xs ips)"
  "xs \<noteq> [] \<Longrightarrow> foldl addIP xs ips \<noteq> [] \<and> hd (foldl addIP xs ips) = hd xs"
  by (induction ips arbitrary: xs) (auto simp add: addIP_def)

lemma foldl_addDomain:
  "distinct xs \<Longrightarrow> distinct (foldl addDomain xs ds)"
  "xs \<noteq> [] \<Longrightarrow> foldl addDomain xs ds \<noteq> [] \<and> hd (foldl addDomain xs ds) = hd xs"
  by (induction ds arbitrary: xs) (auto simp add: addDomain_def)

lemma initial_names:
  "distinct (initial_domains options)" "hd (initial_domains options) = ''localhost''"
  "initial_domains options \<noteq> []"
  "distinct (initial_ips options)" "hd (initial_ips options) = ''127.0.0.1''"
  "initial_ips options \<noteq> []"
  by (auto simp add: initial_domains_def initial_ips_def foldl_addIP foldl_addDomain
      split: option.splits)

lemma gathered_addresses:
  "distinct (snd (fst (gather_names h options w)))"
  "hd (snd (fst (gather_names h options w))) = ''127.0.0.1''"
proof -
  have a: "distinct (addIP xs ip)" if "distinct xs" for xs ip
    using that by (simp add: addIP_def)
  have b: "hd (addIP xs ip) = hd xs" if "xs \<noteq> []" for xs ip
    using that by (simp add: addIP_def)
  show "distinct (snd (fst (gather_names h options w)))"
    by (auto simp add: gather_names_def gather_hostname_def gather_lan_def gather_public_def
        execSync_def a foldl_addIP initial_names split: option.splits prod.splits)
  show "hd (snd (fst (gather_names h options w))) = ''127.0.0.1''"
    by (auto simp add: gather_names_def gather_hostname_def gather_lan_def gather_public_def
        execSync_def b foldl_addIP initial_names split: option.splits prod.splits)
qed

lemma gathered_domains:
  "fst (fst (gather_names h options w)) =
     (case exec h uname_command of
        None \<Rightarrow> initial_domains options
      | Some out \<Rightarrow> initial_domains options @ [js_trim out])"
  "hd (fst (fst (gather_names h options w))) = ''localhost''"
  by (auto simp add: gather_names_def gather_hostname_def gather_lan_def gather_public_def
      execSync_def initial_names split: option.splits prod.splits)

section \<open>Where the code leaves the specification\<close>

lemmas regex_eval = re_test_def js_replace_def replace_first_def literally_def is_word_def
  is_space_def canonicalize_def line_terminator_def

lemmas policy_eval = createBackendProxy_def plain_options_def backendCookieRe_def
  pattern_items_def syntax_character_def with_mode_def with_rewrites_def Let_def base_proxy_def
  BACKEND_COOKIE_def

text \<open>
  C6. In insecure mode the protocol rewrite is \<open>http\<close>, and \<open>https\<close> otherwise. The hook
  removes a trailing \<open>secure\<close> written in lower case only: \<open>token=1; Secure\<close> passes
  unchanged, and \<open>token=1; secure\<close> becomes \<open>token=1; \<close>.
\<close>

theorem capital_Secure_is_kept:
  "protocolRewrite plain_policy = ''http''
   \<and> protocolRewrite tls_policy = ''https''
   \<and> fst (onProxyRes plain_policy expires
            \<lparr>set_cookie = Multi [''token=1; Secure''], content_type = None\<rparr>
            (Some ''proxybackend=http://b1''))
       = \<lparr>set_cookie = Multi [''token=1; Secure''], content_type = None\<rparr>
   \<and> fst (onProxyRes plain_policy expires
            \<lparr>set_cookie = Multi [''token=1; secure''], content_type = None\<rparr>
            (Some ''proxybackend=http://b1''))
       = \<lparr>set_cookie = Multi [''token=1; ''], content_type = None\<rparr>"
proof -
  have 1: "protocolRewrite plain_policy = ''http''"
    by (simp add: plain_policy_def policy_eval)
  have 2: "protocolRewrite tls_policy = ''https''"
    by (simp add: tls_policy_def tls_options_def policy_eval tls_material_def wants_cert_def
        quiet_host_def)
  have hook: "onProxyRes plain_policy =
          insecure_hook (\<lambda>expires proxyRes cookie.
            (onProxyRes_of ''http://b1'' (the (backendCookieRe ''http://b1'')) expires proxyRes cookie,
             Default_pipe))"
    by (simp add: plain_policy_def policy_eval)
  have m: "re_test (the (backendCookieRe ''http://b1'')) ''proxybackend=http://b1''"
    by (simp add: backendCookieRe_def pattern_items_def syntax_character_def regex_eval
        BACKEND_COOKIE_def)
  have kept: "strip_secure (Multi [''token=1; Secure'']) = Multi [''token=1; Secure'']"
    by (simp add: strip_secure_def secure_at_end_def regex_eval)
  have cut: "strip_secure (Multi [''token=1; secure'']) = Multi [''token=1; '']"
    by (simp add: strip_secure_def secure_at_end_def regex_eval)
  have 3: "fst (onProxyRes plain_policy expires
            \<lparr>set_cookie = Multi [''token=1; Secure''], content_type = None\<rparr>
            (Some ''proxybackend=http://b1''))
       = \<lparr>set_cookie = Multi [''token=1; Secure''], content_type = None\<rparr>"
    unfolding hook
    by (simp add: insecure_hook_def onProxyRes_of_def m kept)
  have 4: "fst (onProxyRes plain_policy expires
            \<lparr>set_cookie = Multi [''token=1; secure''], content_type = None\<rparr>
            (Some ''proxybackend=http://b1''))
       = \<lparr>set_cookie = Multi [''token=1; ''], content_type = None\<rparr>"
    unfolding hook
    by (simp add: insecure_hook_def onProxyRes_of_def m cut)
  from 1 2 3 4 show ?thesis by blast
qed

text \<open>
  C7. The origins are put into the regular expression as they are, so a dot in an origin
  stands for any character: with the origin \<open>http://internal.example\<close> configured, a
  page that mentions only \<open>http://internal-example.org\<close> loses part of that address. An
  origin listed before a longer one that starts with it wins, and the rest of the longer
  one stays in the page.
\<close>

theorem origins_are_patterns:
  "deliver (snd (onProxyRes rewriting_policy expires html_headers cookie))
      ''<img src=http://internal-example.org/logo.png>'' plain_answer
     = (Inr (), \<lparr>content_encoding = None, sent = Some ''<img src=.org/logo.png>''\<rparr>)
   \<and> deliver (snd (onProxyRes rewriting_policy expires html_headers cookie))
      ''<img src=HTTP://Internal.Example/logo.png>'' plain_answer
     = (Inr (), \<lparr>content_encoding = None, sent = Some ''<img src=/logo.png>''\<rparr>)
   \<and> origins_re [''http://localhost'', ''http://localhost:8000''] \<noteq> None
   \<and> rewrite_body quiet_host (the (origins_re [''http://localhost'', ''http://localhost:8000'']))
        ''<a href=http://localhost:8000/x>'' plain_answer
     = (Inr (), \<lparr>content_encoding = None, sent = Some ''<a href=:8000/x>''\<rparr>)"
proof -
  have hook: "snd (onProxyRes rewriting_policy expires html_headers cookie)
          = Buffered (rewrite_body quiet_host (the (origins_re [''http://internal.example''])))"
    by (simp add: rewriting_policy_def rewriting_options_def policy_eval origins_re_def
        rewriting_hook_def insecure_hook_def html_headers_def onProxyRes_of_def
        split: prod.splits)
  have re: "origins_re [''http://internal.example'']
      = Some \<lparr>alternatives = [map (\<lambda>c. if c = CHR ''.'' then Item AnyChar One else Item (Lit c) One)
                                  ''http://internal.example''],
               ignoreCase = True, global = True\<rparr>"
    by (simp add: origins_re_def pattern_items_def syntax_character_def)
  have 1: "deliver (snd (onProxyRes rewriting_policy expires html_headers cookie))
      ''<img src=http://internal-example.org/logo.png>'' plain_answer
     = (Inr (), \<lparr>content_encoding = None, sent = Some ''<img src=.org/logo.png>''\<rparr>)"
    unfolding hook re
    by (simp add: deliver_def rewrite_body_def plain_answer_def regex_eval)
  have 2: "deliver (snd (onProxyRes rewriting_policy expires html_headers cookie))
      ''<img src=HTTP://Internal.Example/logo.png>'' plain_answer
     = (Inr (), \<lparr>content_encoding = None, sent = Some ''<img src=/logo.png>''\<rparr>)"
    unfolding hook re
    by (simp add: deliver_def rewrite_body_def plain_answer_def regex_eval)
  have re2: "origins_re [''http://localhost'', ''http://localhost:8000'']
      = Some \<lparr>alternatives = [literally ''http://localhost'', literally ''http://localhost:8000''],
               ignoreCase = True, global = True\<rparr>"
    by (simp add: origins_re_def pattern_items_def syntax_character_def literally_def)
  have 3: "rewrite_body quiet_host (the (origins_re [''http://localhost'', ''http://localhost:8000'']))
        ''<a href=http://localhost:8000/x>'' plain_answer
     = (Inr (), \<lparr>content_encoding = None, sent = Some ''<a href=:8000/x>''\<rparr>)"
    unfolding re2
    by (simp add: rewrite_body_def plain_answer_def regex_eval)
  from 1 2 3 re2 show ?thesis by simp
qed

text \<open>
  C9. The host name is pushed onto the list of domains without the test for a name that
  is there already, which the caller's domains and all addresses go through: on a machine
  named \<open>localhost\<close> the list holds \<open>localhost\<close> twice, and so does the document.
\<close>

theorem host_name_is_not_deduplicated:
  "fst (gather_names container_host None empty_world)
     = ([''localhost'', ''localhost''], [''127.0.0.1'', ''10.0.0.5'', ''203.0.113.7''])
   \<and> \<not> distinct (fst (fst (gather_names container_host None empty_world)))
   \<and> files (snd (createSelfSignedCert container_host None empty_world))
        ''/home/dev/.symmetric/symmetric.ext''
     = Some (nl @ ''subjectAltName = @alt_names'' @ nl @ nl @ ''[ alt_names ]'' @ nl
             @ ''DNS.1 = localhost'' @ nl @ ''DNS.2 = localhost'' @ nl
             @ ''IP.1 = 127.0.0.1'' @ nl @ ''IP.2 = 10.0.0.5'' @ nl @ ''IP.3 = 203.0.113.7'' @ nl)"
proof -
  have names: "fst (gather_names container_host None empty_world)
     = ([''localhost'', ''localhost''], [''127.0.0.1'', ''10.0.0.5'', ''203.0.113.7''])"
    by (simp add: gather_names_def gather_hostname_def gather_lan_def gather_public_def
        execSync_def container_host_def quiet_host_def uname_command_def hostname_command_def
        dig_command_def initial_domains_def initial_ips_def js_trim_def is_space_def nl_def
        addIP_def)
  have doc: "fresh_document container_host None empty_world
     = nl @ ''subjectAltName = @alt_names'' @ nl @ nl @ ''[ alt_names ]'' @ nl
             @ ''DNS.1 = localhost'' @ nl @ ''DNS.2 = localhost'' @ nl
             @ ''IP.1 = 127.0.0.1'' @ nl @ ''IP.2 = 10.0.0.5'' @ nl @ ''IP.3 = 203.0.113.7'' @ nl"
    unfolding fresh_document_def names
    by (simp add: extData_def numbered_def two_spaces_def js_replace_def literally_def nl_def
        decimal.simps digit_def enumerate_eq_zip upt_rec)
  let ?dir = "''/home/dev/.symmetric''"
  have dir: "?dir = storage_root container_host None"
    by (simp add: storage_root_def truthy_def container_host_def quiet_host_def path_join_def)
  have "\<not> existsSync (path_join ?dir ''symmetric_ca.key'') empty_world
          \<or> \<not> existsSync (path_join ?dir ''symmetric_ca.crt'') empty_world"
    by (simp add: existsSync_def empty_world_def)
  moreover have "exec container_host (ca_command ?dir) = Some []"
    by (simp add: container_host_def quiet_host_def ca_command_def opensslCA_def
        uname_command_def hostname_command_def dig_command_def)
  ultimately obtain w1 where ca: "ensure_ca container_host ?dir empty_world = (Inr (), w1)"
    and w1: "files w1 (path_join ?dir ''symmetric.key'') = None"
    by (simp add: ensure_ca_made empty_world_def path_join_def)
  let ?w2 = "w1\<lparr>execd := execd w1 @ probes container_host\<rparr>"
  let ?doc = "fresh_document container_host None empty_world"
  have stale: "\<not> (files ?w2 (path_join ?dir ''symmetric.ext'') = Some ?doc
      \<and> existsSync (path_join ?dir ''symmetric.key'') ?w2
      \<and> existsSync (path_join ?dir ''symmetric.crt'') ?w2)"
    using w1 by (simp add: existsSync_def domIff)
  obtain r3 w3 where leaf: "ensure_leaf container_host ?dir ?doc ?w2 = (r3, w3)"
    by (cases "ensure_leaf container_host ?dir ?doc ?w2")
  then have "files w3 (path_join ?dir ''symmetric.ext'') = Some ?doc"
    unfolding ensure_leaf_unfolded [OF stale]
    by (auto simp add: path_join_def split: option.splits)
  moreover have "snd (createSelfSignedCert container_host None empty_world) = w3"
    unfolding createSelfSignedCert_after_ca [OF dir ca] leaf
    by (cases r3) simp_all
  ultimately have "files (snd (createSelfSignedCert container_host None empty_world))
          (path_join ?dir ''symmetric.ext'') = Some ?doc"
    by simp
  with names doc show ?thesis
    by (simp add: path_join_def)
qed


text \<open>
  C8. For the two routes that exist the listener answers 200 and then goes on to the
  statements that answer 404, which are not in an \<open>else\<close>: \<open>writeHead\<close> is called a
  second time on a message whose headers are sent, and throws inside the listener. Any
  other path is answered once, with 404.
\<close>

theorem known_routes_run_into_404:
  "listener index_html ca_cert ''/'' fresh_response =
     (Inl ERR_HTTP_HEADERS_SENT,
      \<lparr>head = Some (200, [(''Content-Length'', decimal (length index_html)),
                          (''Content-Type'', ''text/html'')]),
       body = Some index_html\<rparr>)
   \<and> listener index_html ca_cert ''/symmetric_ca.crt'' fresh_response =
     (Inl ERR_HTTP_HEADERS_SENT,
      \<lparr>head = Some (200, [(''Content-Length'', decimal (length ca_cert)),
                          (''Content-Type'', ''application/x-x509-ca-cert'')]),
       body = Some ca_cert\<rparr>)
   \<and> listener index_html ca_cert ''/favicon.ico'' fresh_response =
     (Inr (),
      \<lparr>head = Some (404, [(''Content-Length'', ''15''), (''Content-Type'', ''text/plain'')]),
       body = Some ''404 - Not Found''\<rparr>)"
  by (simp add: listener_def respond_def writeHead_def res_end_def fresh_response_def
      notFound_def decimal.simps digit_def)

text \<open>
  What the request hook of a returned policy does: nothing without a cookie header or
  with the marker of the backend; otherwise it takes out the first text of the form
  \<open>sessionid=\<close>, word characters, and a semicolon if one follows.
\<close>

lemma request_hook_effect:
  assumes "createBackendProxy h opts w = (Inr (p, opts'), w')"
  shows "onProxyReq p None = None"
    and "marker_matches (backend opts) (Some c) \<Longrightarrow> onProxyReq p (Some c) = Some c"
    and "\<not> marker_matches (backend opts) (Some c) \<Longrightarrow>
           onProxyReq p (Some c) = Some (replace_first sessionCookieRe [] c)"
proof -
  from createBackendProxy_hooks [OF assms] obtain re where
    re: "backendCookieRe (backend opts) = Some re" and hook: "onProxyReq p = onProxyReq_of re"
    by blast
  show "onProxyReq p None = None"
    by (simp add: hook onProxyReq_of_def)
  show "marker_matches (backend opts) (Some c) \<Longrightarrow> onProxyReq p (Some c) = Some c"
    by (simp add: hook onProxyReq_of_def marker_matches_def re)
  show "\<not> marker_matches (backend opts) (Some c) \<Longrightarrow>
           onProxyReq p (Some c) = Some (replace_first sessionCookieRe [] c)"
    by (cases c)
       (simp_all add: hook onProxyReq_of_def marker_matches_def re js_replace_def
          sessionCookieRe_def replace_first_def literally_def)
qed

text \<open>
  C4. The earlier copy of the hook computes the cookie header without the session id and
  drops the result: the header goes to the backend with \<open>sessionid\<close> in it; and with no
  cookie header at all the hook throws. The hook of \<open>index.js\<close> does take the session id
  out, the first one only.
\<close>

theorem earlier_hook_keeps_session:
  "backendCookieRe ''http://b1'' \<noteq> None
   \<and> onProxyReq_earlier (the (backendCookieRe ''http://b1'')) (Some ''sessionid=abc; theme=dark'')
       = Inr (Some ''sessionid=abc; theme=dark'')
   \<and> onProxyReq_earlier (the (backendCookieRe ''http://b1'')) None = Inl TypeError
   \<and> onProxyReq plain_policy (Some ''sessionid=abc; theme=dark'') = Some '' theme=dark''
   \<and> onProxyReq plain_policy (Some ''sessionid=abc; sessionid=def'') = Some '' sessionid=def''"
proof -
  have earlier: "backendCookieRe ''http://b1'' \<noteq> None
   \<and> onProxyReq_earlier (the (backendCookieRe ''http://b1'')) (Some ''sessionid=abc; theme=dark'')
       = Inr (Some ''sessionid=abc; theme=dark'')
   \<and> onProxyReq_earlier (the (backendCookieRe ''http://b1'')) None = Inl TypeError"
    by (simp add: backendCookieRe_def pattern_items_def syntax_character_def
        onProxyReq_earlier_def regex_eval BACKEND_COOKIE_def sessionCookieRe_def Let_def)
  have hook: "onProxyReq plain_policy = onProxyReq_of (the (backendCookieRe ''http://b1''))"
    by (simp add: plain_policy_def policy_eval)
  have later: "onProxyReq plain_policy (Some ''sessionid=abc; theme=dark'') = Some '' theme=dark''
     \<and> onProxyReq plain_policy (Some ''sessionid=abc; sessionid=def'') = Some '' sessionid=def''"
    unfolding hook
    by (simp add: backendCookieRe_def pattern_items_def syntax_character_def onProxyReq_of_def
        regex_eval BACKEND_COOKIE_def sessionCookieRe_def)
  from earlier later show ?thesis by blast
qed

text \<open>
  The body rewrite leaves every answer alone whose content type is missing or does not
  contain \<open>text/html\<close>; for the others it hands the buffered body, unzipped when the
  answer to the client says \<open>gzip\<close>, to the replacement and drops the content encoding.
\<close>

lemma onProxyRes_of_content_type:
  "content_type (onProxyRes_of b re expires proxyRes cookie) = content_type proxyRes"
  by (simp add: onProxyRes_of_def Let_def)

lemma body_rewrite_choice:
  assumes "createBackendProxy h opts w = (Inr (p, opts'), w')"
    and "originRewrites opts = Some origins" and "origins \<noteq> []"
  shows "\<exists>re. origins_re origins = Some re
           \<and> (\<forall>expires proxyRes cookie.
                snd (onProxyRes p expires proxyRes cookie) =
                  (case content_type proxyRes of
                     None \<Rightarrow> Default_pipe
                   | Some ct \<Rightarrow>
                       if js_includes ct ''text/html'' then Buffered (rewrite_body h re)
                       else Default_pipe))"
proof -
  from assms(1) obtain cre p0 p1 where
    p0: "p0 = base_proxy h opts cre
            (normalise STANDARD_PATHS (case paths opts of None \<Rightarrow> [] | Some xs \<Rightarrow> xs))
            (normalise STANDARD_SUBPATHS (case subpaths opts of None \<Rightarrow> [] | Some xs \<Rightarrow> xs))"
    and p1: "with_mode h opts p0 w = (Inr p1, w')"
    and p: "with_rewrites h opts p1 = Inr p"
    by (rule createBackendProxy_returned)
  have inner: "onProxyRes p1 expires proxyRes cookie =
      (onProxyRes_of (backend opts) cre expires
          (if insecure opts then proxyRes\<lparr>set_cookie := strip_secure (set_cookie proxyRes)\<rparr>
           else proxyRes) cookie, Default_pipe)" for expires proxyRes cookie
    using with_mode_fields(4) [OF p1] p0
    by (simp add: base_proxy_def Let_def insecure_hook_def)
  from p assms(2,3) obtain re where re: "origins_re origins = Some re"
    and hook: "onProxyRes p = rewriting_hook h re (onProxyRes p1)"
    unfolding with_rewrites_def by (auto split: option.splits)
  have "snd (onProxyRes p expires proxyRes cookie) =
                  (case content_type proxyRes of
                     None \<Rightarrow> Default_pipe
                   | Some ct \<Rightarrow>
                       if js_includes ct ''text/html'' then Buffered (rewrite_body h re)
                       else Default_pipe)" for expires proxyRes cookie
    unfolding hook rewriting_hook_def inner
    by (auto simp add: onProxyRes_of_content_type split: option.splits)
  with re show ?thesis by blast
qed

lemma rewrite_body_effect:
  "content_encoding res \<noteq> Some ''gzip'' \<Longrightarrow>
     rewrite_body h re buffered res =
       (Inr (), res\<lparr>content_encoding := None, sent := Some (js_replace buffered re [])\<rparr>)"
  "content_encoding res = Some ''gzip'' \<Longrightarrow> gunzipSync h buffered = Some plain \<Longrightarrow>
     rewrite_body h re buffered res =
       (Inr (), res\<lparr>content_encoding := None, sent := Some (js_replace plain re [])\<rparr>)"
  by (simp_all add: rewrite_body_def)

section \<open>The marker test as a test for a piece of text\<close>

lemma match_literal_prefix:
  "(match_here False (literally s @ [Item (Lit CHR '';'') Opt]) c \<noteq> None)
     = (take (length s) c = s)"
proof (induction s arbitrary: c)
  case Nil
  show ?case by (cases c) (simp_all add: literally_def split: option.splits)
next
  case (Cons a s)
  show ?case
  proof (cases c)
    case Nil
    then show ?thesis by (simp add: literally_def)
  next
    case (Cons x xs)
    with Cons.IH [of xs] show ?thesis
      by (auto simp add: literally_def)
  qed
qed

lemma search_literal:
  "(search False [literally s @ [Item (Lit CHR '';'') Opt]] c \<noteq> None) = js_includes c s"
proof (induction c)
  case Nil
  show ?case
    using match_literal_prefix [of s "[]"] by (auto split: option.splits)
next
  case (Cons x xs)
  then show ?case
    using match_literal_prefix [of s "x # xs"] by (auto split: option.splits)
qed

lemma pattern_items_literal:
  "\<not> list_ex syntax_character s \<Longrightarrow> CHR ''.'' \<notin> set s \<Longrightarrow> pattern_items s = Some (literally s)"
  by (auto simp add: pattern_items_def literally_def)

text \<open>
  For a backend origin without a dot or another syntax character, the request carries the
  marker exactly when its cookie header contains the text \<open>proxybackend=<backend>\<close>
  somewhere; what follows that text is not looked at.
\<close>

lemma marker_matches_literal:
  assumes "\<not> list_ex syntax_character b" and "CHR ''.'' \<notin> set b"
  shows "marker_matches b cookie
           = js_includes (case cookie of None \<Rightarrow> [] | Some c \<Rightarrow> c) (BACKEND_COOKIE @ ''='' @ b)"
proof -
  have "literally (BACKEND_COOKIE @ ''='') @ literally b @ [Item (Lit CHR '';'') Opt]
          = literally (BACKEND_COOKIE @ ''='' @ b) @ [Item (Lit CHR '';'') Opt]"
    by (simp add: literally_def)
  then have "backendCookieRe b
      = Some \<lparr>alternatives = [literally (BACKEND_COOKIE @ ''='' @ b) @ [Item (Lit CHR '';'') Opt]],
               ignoreCase = False, global = False\<rparr>"
    by (simp add: backendCookieRe_def pattern_items_literal [OF assms])
  then show ?thesis
    unfolding marker_matches_def re_test_def
    by (simp only: option.case regexp.simps search_literal)
qed

text \<open>So the marker left by a backend whose origin begins with the configured one passes too.\<close>

lemma marker_of_longer_origin:
  "marker_matches ''http://192.168.1.1'' (Some ''proxybackend=http://192.168.1.10; sessionid=abc'')"
  by (simp add: marker_matches_def backendCookieRe_def pattern_items_def syntax_character_def
      re_test_def literally_def BACKEND_COOKIE_def line_terminator_def)

end
